theory Spec2Isabelle
  imports Main "HOL-Library.Word"
begin

unbundle bit_operations_syntax

section \<open>Drift-corrected clock (src/runtime/clock.h)\<close>

text \<open>
  The C types: \<open>timestamp\<close> and \<open>u64\<close> are unsigned 64-bit integers, \<open>s64\<close> is a signed
  64-bit integer.  All three are 64-bit words here; addition, subtraction, negation and
  multiplication wrap modulo \<open>2 ^ 64\<close>, unsigned comparisons are the word order and a
  signed comparison reads the word with \<open>sint\<close>.  The header is modelled as it is
  compiled for the kernel (\<open>KERNEL\<close> or \<open>BUILD_VDSO\<close> defined).
\<close>

type_synonym u64 = "64 word"
type_synonym s64 = "64 word"
type_synonym timestamp = "64 word"

definition CLOCK_CALIBR_BITS :: nat where
  "CLOCK_CALIBR_BITS = 32"

datatype clock_id =
    CLOCK_ID_REALTIME
  | CLOCK_ID_MONOTONIC
  | CLOCK_ID_PROCESS_CPUTIME_ID
  | CLOCK_ID_THREAD_CPUTIME_ID
  | CLOCK_ID_MONOTONIC_RAW
  | CLOCK_ID_REALTIME_COARSE
  | CLOCK_ID_MONOTONIC_COARSE
  | CLOCK_ID_BOOTTIME
  | CLOCK_ID_REALTIME_ALARM
  | CLOCK_ID_BOOTTIME_ALARM

datatype vdso_clock_id =
    VDSO_CLOCK_SYSCALL
  | VDSO_CLOCK_HPET
  | VDSO_CLOCK_TSC_STABLE
  | VDSO_CLOCK_PVCLOCK
  | VDSO_CLOCK_NRCLOCKS

text \<open>
  The shared time structure \<open>__vdso_dat\<close>.  Its declaration (\<open>vdso.h\<close>) is not among the
  sources; the fields are the ones \<open>clock.h\<close> reads and writes, typed by the way it uses
  them (\<open>cal\<close>, \<open>temp_cal\<close> and \<open>last_drift\<close> are passed and returned as \<open>s64\<close>, the rest
  are compared and subtracted as timestamps).
\<close>

record vdso_dat_struct =
  clock_src :: vdso_clock_id
  rtc_offset :: timestamp
  platform_has_rdtscp :: bool
  temp_cal :: s64
  cal :: s64
  sync_complete :: timestamp
  last_raw :: timestamp
  last_drift :: s64

text \<open>
  \<open>clock_calculate_drift\<close>: the product of a \<open>timestamp\<close> and an \<open>s64\<close> is computed in
  unsigned 64-bit arithmetic, so the shift is a logical one.
\<close>

definition clock_calculate_drift :: "timestamp \<Rightarrow> s64 \<Rightarrow> s64" where
  "clock_calculate_drift interval c =
     (if 0 \<le> sint c
      then drop_bit CLOCK_CALIBR_BITS (interval * c)
      else - drop_bit CLOCK_CALIBR_BITS (interval * (- c)))"

definition clock_get_drift :: "vdso_dat_struct \<Rightarrow> timestamp \<Rightarrow> s64" where
  "clock_get_drift d raw =
     (if temp_cal d = 0 \<and> cal d = 0 then 0
      else
        let drift = last_drift d in
        if raw > sync_complete d then
          (if last_raw d > sync_complete d
           then drift + clock_calculate_drift (raw - last_raw d) (cal d)
           else (drift + clock_calculate_drift (sync_complete d - last_raw d) (temp_cal d))
                  + clock_calculate_drift (raw - sync_complete d) (cal d))
        else drift + clock_calculate_drift (raw - last_raw d) (temp_cal d))"

text \<open>\<open>clock_update_drift\<close> returns the drift and the updated structure.\<close>

definition clock_update_drift :: "vdso_dat_struct \<Rightarrow> timestamp \<Rightarrow> s64 \<times> vdso_dat_struct" where
  "clock_update_drift d raw =
     (let drift = clock_get_drift d raw
      in (drift, d\<lparr>last_drift := drift, last_raw := raw\<rparr>))"

text \<open>
  The kernel's clock state: the closure \<open>platform_monotonic_now\<close> and the shared
  structure.  A \<open>clock_now\<close> closure reads a hardware counter; it is a function of the
  hardware state \<open>'h\<close> at the moment of the call.  \<open>rtc_gettimeofday\<close> is only declared in
  the header, so the real-time clock is a parameter \<open>rtc\<close> of the same kind.
\<close>

type_synonym 'h clock_now = "'h \<Rightarrow> timestamp"

record 'h clock_state =
  platform_monotonic_now :: "'h clock_now"
  vdso_dat :: vdso_dat_struct

definition now :: "clock_id \<Rightarrow> 'h \<Rightarrow> 'h clock_state \<Rightarrow> timestamp \<times> 'h clock_state" where
  "now cid h k =
     (let t = platform_monotonic_now k h in
      if cid = CLOCK_ID_MONOTONIC_RAW then (t, k)
      else
        let (drift, d) = clock_update_drift (vdso_dat k) t;
            t1 = t + drift;
            t2 = (case cid of
                    CLOCK_ID_REALTIME \<Rightarrow> t1 + rtc_offset d
                  | CLOCK_ID_REALTIME_COARSE \<Rightarrow> t1 + rtc_offset d
                  | _ \<Rightarrow> t1)
        in (t2, k\<lparr>vdso_dat := d\<rparr>))"

definition uptime :: "'h \<Rightarrow> 'h clock_state \<Rightarrow> timestamp \<times> 'h clock_state" where
  "uptime h k = now CLOCK_ID_BOOTTIME h k"

definition reset_clock_vdso_dat :: "('h \<Rightarrow> u64) \<Rightarrow> 'h \<Rightarrow> 'h clock_state \<Rightarrow> 'h clock_state" where
  "reset_clock_vdso_dat rtc h k =
     (let rt = rtc h in
      k\<lparr>vdso_dat := (vdso_dat k)
          \<lparr>rtc_offset := (if rt \<noteq> 0 then push_bit 32 rt - platform_monotonic_now k h else 0),
           temp_cal := 0, cal := 0,
           sync_complete := 0,
           last_raw := 0, last_drift := 0\<rparr>\<rparr>)"

definition register_platform_clock_now ::
  "('h \<Rightarrow> u64) \<Rightarrow> 'h clock_now \<Rightarrow> vdso_clock_id \<Rightarrow> 'h \<Rightarrow> 'h clock_state \<Rightarrow> 'h clock_state" where
  "register_platform_clock_now rtc cn src h k =
     reset_clock_vdso_dat rtc h
       (k\<lparr>platform_monotonic_now := cn, vdso_dat := (vdso_dat k)\<lparr>clock_src := src\<rparr>\<rparr>)"

text \<open>
  The drift rule in the words of the specification, for comparison with
  \<open>clock_get_drift\<close>: \<open>scale(interval, coeff)\<close> is \<open>(interval * |coeff|) >> 32\<close>, negated
  when \<open>coeff\<close> is negative.
\<close>

definition spec_abs :: "s64 \<Rightarrow> s64" where
  "spec_abs c = (if sint c < 0 then - c else c)"

definition spec_scale :: "timestamp \<Rightarrow> s64 \<Rightarrow> s64" where
  "spec_scale interval coeff =
     (let m = drop_bit 32 (interval * spec_abs coeff)
      in if sint coeff < 0 then - m else m)"

definition spec_drift :: "vdso_dat_struct \<Rightarrow> timestamp \<Rightarrow> s64" where
  "spec_drift d r =
     (if r \<le> sync_complete d
        then last_drift d + spec_scale (r - last_raw d) (temp_cal d)
      else if sync_complete d < last_raw d
        then last_drift d + spec_scale (r - last_raw d) (cal d)
      else last_drift d + spec_scale (sync_complete d - last_raw d) (temp_cal d)
                        + spec_scale (r - sync_complete d) (cal d))"


section \<open>Interrupt and exception dispatch (src/aarch64/interrupt.c)\<close>

definition INTERRUPT_VECTOR_START :: nat where
  "INTERRUPT_VECTOR_START = 32"

definition MAX_INTERRUPT_VECTORS :: nat where
  "MAX_INTERRUPT_VECTORS = 256"

text \<open>
  A \<open>thunk\<close> is an opaque closure; it is identified by its address.  A handler record is
  \<open>struct inthandler\<close> without the intrusive link \<open>l\<close>: the chain of a vector is a list,
  first element first, which is the order \<open>list_foreach\<close> visits.
\<close>

type_synonym thunk = u64

record inthandler =
  ih_t :: thunk
  ih_name :: string

text \<open>
  A \<open>context\<close> points to a frame, an array of 64-bit slots indexed by the \<open>FRAME_\<close>
  constants.  Their numeric values are in a header that is not among the sources; the
  slots this file names are distinct cells, the others are numbered.
\<close>

datatype frame_slot =
    FRAME_X8
  | FRAME_SP
  | FRAME_VECTOR
  | FRAME_ESR_SPSR
  | FRAME_ELR
  | FRAME_EL
  | FRAME_FULL
  | FRAME_FAULT_HANDLER
  | FRAME_OTHER nat

type_synonym frame = "frame_slot \<Rightarrow> u64"
type_synonym "context" = u64

subsection \<open>Diagnostic stack walks\<close>

text \<open>
  Memory as the walks see it: which byte addresses are mapped, and the 64-bit value
  stored at an address.

  Modelled from the spec: \<open>validate_virtual\<close> (virtual-memory validation is a
  collaborator) is the validity check of a range against mapped memory.

  A load of eight bytes that are not all mapped is a fault.
\<close>

record memory =
  mapped :: "u64 \<Rightarrow> bool"
  contents :: "u64 \<Rightarrow> u64"

datatype fault = Unmapped_access u64

definition validate_virtual :: "memory \<Rightarrow> u64 \<Rightarrow> nat \<Rightarrow> bool" where
  "validate_virtual mem base len = list_all (\<lambda>i. mapped mem (base + of_nat i)) [0..<len]"

definition load_u64 :: "memory \<Rightarrow> u64 \<Rightarrow> fault + u64" where
  "load_u64 mem p = (if validate_virtual mem p 8 then Inr (contents mem p) else Inl (Unmapped_access p))"

text \<open>
  \<open>frame_trace\<close>: the loop runs while \<open>frame < 16\<close>; the first argument of the loop
  function is the number of iterations left.  The result is the list of the return
  addresses printed, or the fault of a load.
\<close>

fun frame_trace_loop :: "nat \<Rightarrow> memory \<Rightarrow> u64 \<Rightarrow> u64 list \<Rightarrow> fault + u64 list" where
  "frame_trace_loop 0 mem fp out = Inr out"
| "frame_trace_loop (Suc k) mem fp out =
     (if fp < 4096 then Inr out
      else if \<not> validate_virtual mem fp 8 \<or> \<not> validate_virtual mem (fp + 8) 8 then Inr out
      else
        case load_u64 mem (fp + 8) of
          Inl e \<Rightarrow> Inl e
        | Inr n \<Rightarrow>
            if n = 0 then Inr out
            else
              (case load_u64 mem fp of
                 Inl e \<Rightarrow> Inl e
               | Inr fp' \<Rightarrow> frame_trace_loop k mem fp' (out @ [n])))"

definition frame_trace :: "memory \<Rightarrow> u64 \<Rightarrow> fault + u64 list" where
  "frame_trace mem fp = frame_trace_loop 16 mem fp []"

definition STACK_TRACE_DEPTH :: nat where
  "STACK_TRACE_DEPTH = 128"

text \<open>
  \<open>print_stack\<close>: the loop runs while \<open>i < STACK_TRACE_DEPTH\<close> and the pointer is below
  the fixed upper address; each iteration prints the pointer and the value it loads
  from it, and advances the pointer by one 64-bit slot.
\<close>

fun print_stack_loop :: "nat \<Rightarrow> memory \<Rightarrow> u64 \<Rightarrow> (u64 \<times> u64) list \<Rightarrow> fault + (u64 \<times> u64) list" where
  "print_stack_loop 0 mem x out = Inr out"
| "print_stack_loop (Suc k) mem x out =
     (if x < 0xffff000000020000 then
        (case load_u64 mem x of
           Inl e \<Rightarrow> Inl e
         | Inr v \<Rightarrow> print_stack_loop k mem (x + 8) (out @ [(x, v)]))
      else Inr out)"

definition print_stack :: "memory \<Rightarrow> frame \<Rightarrow> fault + (u64 \<times> u64) list" where
  "print_stack mem c = print_stack_loop STACK_TRACE_DEPTH mem (c FRAME_SP) []"

text \<open>
  Modelled from the spec: the per-core context (\<open>cpuinfo\<close>, declared in an absent
  header) holds the current frame reference, the frame of the dedicated kernel context
  (\<open>ci->kernel_context->frame\<close>) and a run state (idle / interrupt / kernel).
\<close>

datatype cpu_state = cpu_idle | cpu_kernel | cpu_interrupt

record cpuinfo =
  running_frame :: "context"
  kernel_context_frame :: "context"
  state :: cpu_state

text \<open>
  Calls that leave this file are recorded in a trace: the application of a handler thunk
  and the calls to the interrupt controller.
\<close>

datatype event =
    Apply_thunk thunk
  | Gic_eoi nat
  | Gic_set_int_priority nat nat
  | Gic_clear_pending_int nat
  | Gic_enable_int nat
  | Gic_disable_int nat

text \<open>
  The machine state: the current core, the frames in memory, the table \<open>handlers\<close>, and
  the interrupt controller.  The table has \<open>MAX_INTERRUPT_VECTORS\<close> entries in the C code
  and is indexed without a bounds check by \<open>register_interrupt\<close> and
  \<open>unregister_interrupt\<close>; here it is a total function, and what is proved about these two
  is stated for vectors below \<open>MAX_INTERRUPT_VECTORS\<close>.

  Modelled from the spec: the interrupt controller (\<open>gic.h\<close> is absent) has per line an
  enable bit, a pending bit and a priority, and delivers the pending interrupt ids one
  by one; \<open>gic_queue\<close> holds the ids it will deliver before it answers
  \<open>INTID_NO_PENDING\<close>.
\<close>

record machine =
  ci :: cpuinfo
  frames :: "context \<Rightarrow> frame"
  handlers :: "nat \<Rightarrow> inthandler list"
  gic_enabled :: "nat \<Rightarrow> bool"
  gic_pending :: "nat \<Rightarrow> bool"
  gic_priority :: "nat \<Rightarrow> nat"
  gic_queue :: "nat list"
  trace :: "event list"

datatype halt_reason =
    Exceeds_max_interrupt_vectors nat
  | No_handler_for_interrupt nat
  | No_handler_registered nat
  | Assertion_failed

text \<open>
  How a function of this file ends: it returns, halts, or transfers control for good
  (to the syscall entry with a frame, to \<open>frame_return\<close>, to the run loop, or into the
  final \<open>while(1)\<close>), or a load of its diagnostic output faults before it gets there.
\<close>

datatype outcome =
    Return machine
  | Halt halt_reason machine
  | Syscall "context" machine
  | Frame_return "context" machine
  | Runloop machine
  | Spin machine
  | Fault fault machine

subsection \<open>The interrupt controller\<close>

text \<open>Modelled from the spec: \<open>set-priority(vector, level)\<close> of the interrupt controller.\<close>

definition gic_set_int_priority :: "nat \<Rightarrow> nat \<Rightarrow> machine \<Rightarrow> machine" where
  "gic_set_int_priority irq pri m =
     m\<lparr>gic_priority := (gic_priority m)(irq := pri),
       trace := trace m @ [Gic_set_int_priority irq pri]\<rparr>"

text \<open>Modelled from the spec: \<open>clear-pending(vector)\<close> of the interrupt controller.\<close>

definition gic_clear_pending_int :: "nat \<Rightarrow> machine \<Rightarrow> machine" where
  "gic_clear_pending_int irq m =
     m\<lparr>gic_pending := (gic_pending m)(irq := False),
       trace := trace m @ [Gic_clear_pending_int irq]\<rparr>"

text \<open>Modelled from the spec: \<open>enable(vector)\<close> of the interrupt controller.\<close>

definition gic_enable_int :: "nat \<Rightarrow> machine \<Rightarrow> machine" where
  "gic_enable_int irq m =
     m\<lparr>gic_enabled := (gic_enabled m)(irq := True),
       trace := trace m @ [Gic_enable_int irq]\<rparr>"

text \<open>Modelled from the spec: \<open>disable(vector)\<close> of the interrupt controller.\<close>

definition gic_disable_int :: "nat \<Rightarrow> machine \<Rightarrow> machine" where
  "gic_disable_int irq m =
     m\<lparr>gic_enabled := (gic_enabled m)(irq := False),
       trace := trace m @ [Gic_disable_int irq]\<rparr>"

text \<open>Modelled from the spec: \<open>end-of-interrupt(id)\<close> of the interrupt controller.\<close>

definition gic_eoi :: "nat \<Rightarrow> machine \<Rightarrow> machine" where
  "gic_eoi irq m = m\<lparr>trace := trace m @ [Gic_eoi irq]\<rparr>"

text \<open>
  Modelled from the spec: \<open>dispatch-next-pending-id\<close> of the interrupt controller;
  \<open>None\<close> is the answer \<open>INTID_NO_PENDING\<close>.
\<close>

definition gic_dispatch_int :: "machine \<Rightarrow> nat option \<times> machine" where
  "gic_dispatch_int m =
     (case gic_queue m of
        [] \<Rightarrow> (None, m)
      | i # q \<Rightarrow> (Some i, m\<lparr>gic_queue := q\<rparr>))"

subsection \<open>Registration\<close>

text \<open>
  \<open>register_interrupt\<close>.  The allocation is made on a heap outside this file: \<open>allocated\<close>
  says whether \<open>allocate\<close> returned an address other than \<open>INVALID_ADDRESS\<close>.
  \<open>list_insert_before\<close> on the head of the chain links the new handler in as the last
  element.
\<close>

definition register_interrupt :: "nat \<Rightarrow> thunk \<Rightarrow> string \<Rightarrow> bool \<Rightarrow> machine \<Rightarrow> outcome" where
  "register_interrupt vector t name allocated m =
     (let initialized = (handlers m vector \<noteq> []) in
      if \<not> allocated then Halt Assertion_failed m
      else
        let h = \<lparr>ih_t = t, ih_name = name\<rparr>;
            m1 = m\<lparr>handlers := (handlers m)(vector := handlers m vector @ [h])\<rparr>
        in if \<not> initialized
           then Return (gic_enable_int vector
                          (gic_clear_pending_int vector
                             (gic_set_int_priority vector 0 m1)))
           else Return m1)"

text \<open>
  \<open>unregister_interrupt\<close>.  The loop unlinks and frees every handler of the chain, which
  leaves the chain empty.
\<close>

definition unregister_interrupt :: "nat \<Rightarrow> machine \<Rightarrow> outcome" where
  "unregister_interrupt vector m =
     (let m1 = gic_disable_int vector m in
      if handlers m1 vector = [] then Halt (No_handler_registered vector) m1
      else Return (m1\<lparr>handlers := (handlers m1)(vector := [])\<rparr>))"

subsection \<open>The interrupt dispatcher\<close>

text \<open>
  \<open>apply(h->t)\<close>: the handler is opaque, the call is recorded.  A handler that changes
  the handler table or the controller while it runs is outside this model.
\<close>

definition apply_thunk :: "thunk \<Rightarrow> machine \<Rightarrow> machine" where
  "apply_thunk t m = m\<lparr>trace := trace m @ [Apply_thunk t]\<rparr>"

text \<open>The \<open>list_foreach\<close> loop of \<open>irq_handler\<close> over the chain of one vector.\<close>

fun invoke_handlers :: "inthandler list \<Rightarrow> machine \<Rightarrow> machine" where
  "invoke_handlers [] m = m"
| "invoke_handlers (h # hs) m =
     invoke_handlers hs (apply_thunk (ih_t h) (m\<lparr>ci := (ci m)\<lparr>state := cpu_interrupt\<rparr>\<rparr>))"

text \<open>The \<open>while\<close> loop of \<open>irq_handler\<close>.\<close>

function irq_loop :: "machine \<Rightarrow> outcome" where
  "irq_loop m =
     (case gic_dispatch_int m of
        (None, m1) \<Rightarrow> Return m1
      | (Some i, m1) \<Rightarrow>
          if i \<ge> MAX_INTERRUPT_VECTORS then Halt (Exceeds_max_interrupt_vectors i) m1
          else if handlers m1 i = [] then Halt (No_handler_for_interrupt i) m1
          else irq_loop (gic_eoi i (invoke_handlers (handlers m1 i) m1)))"
  by pat_completeness auto
termination
proof (relation "measure (\<lambda>m. length (gic_queue m))")
  show "wf (measure (\<lambda>m. length (gic_queue m)))" by simp
next
  fix m :: machine and x i m1
  assume d: "(x, m1) = gic_dispatch_int m" and x: "x = Some i"
  have q: "gic_queue (invoke_handlers hs k) = gic_queue k" for hs k
    by (induction hs arbitrary: k) (simp_all add: apply_thunk_def)
  from d x have "length (gic_queue m1) < length (gic_queue m)"
    by (cases "gic_queue m") (simp_all add: gic_dispatch_int_def)
  then show "(gic_eoi i (invoke_handlers (handlers m1 i) m1), m)
               \<in> measure (\<lambda>m. length (gic_queue m))"
    by (simp add: gic_eoi_def q)
qed

declare irq_loop.simps [simp del]

text \<open>
  Modelled from the spec: \<open>is_current_kernel_context\<close> (an absent header) holds when the
  frame is the one of the core's own kernel context.
\<close>

definition is_current_kernel_context :: "machine \<Rightarrow> context \<Rightarrow> bool" where
  "is_current_kernel_context m f = (f = kernel_context_frame (ci m))"

definition clear_frame_full :: "context \<Rightarrow> machine \<Rightarrow> machine" where
  "clear_frame_full f m = m\<lparr>frames := (frames m)(f := (frames m f)(FRAME_FULL := 0))\<rparr>"

definition irq_handler :: "machine \<Rightarrow> outcome" where
  "irq_handler m =
     (let f = running_frame (ci m) in
      case irq_loop m of
        Return m1 \<Rightarrow>
          Runloop (if is_current_kernel_context m1 f then clear_frame_full f m1 else m1)
      | other \<Rightarrow> other)"


subsection \<open>The synchronous exception dispatcher\<close>

text \<open>
  Modelled from the spec: the layout of the exception syndrome register (the macros are
  in an absent header).  A field is a pair of its shift and its width, and
  \<open>field_from_u64\<close> extracts it.  The values are those of the architecture's
  \<open>ESR_EL1\<close>: the exception class in bits 31..26, the instruction-length bit 25, the
  16-bit immediate of a supervisor call in bits 15..0, and class \<open>0x15\<close> for a supervisor
  call from 64-bit state.
\<close>

definition field_from_u64 :: "u64 \<Rightarrow> nat \<times> nat \<Rightarrow> u64" where
  "field_from_u64 u f = drop_bit (fst f) u AND mask (snd f)"

definition ESR_EC :: "nat \<times> nat" where
  "ESR_EC = (26, 6)"

definition ESR_ISS_IMM16 :: "nat \<times> nat" where
  "ESR_ISS_IMM16 = (0, 16)"

definition ESR_IL :: u64 where
  "ESR_IL = push_bit 25 1"

definition ESR_EC_SVC_AARCH64 :: u64 where
  "ESR_EC_SVC_AARCH64 = 0x15"

text \<open>
  Modelled from the spec: \<open>esr_from_frame\<close> (an absent header) is the syndrome half of
  the combined cause/status slot, as \<open>print_frame\<close> computes it:
  \<open>f[FRAME_ESR_SPSR] >> 32\<close>.
\<close>

definition esr_from_frame :: "frame \<Rightarrow> 32 word" where
  "esr_from_frame f = ucast (drop_bit 32 (f FRAME_ESR_SPSR))"

text \<open>
  \<open>synchronous_handler\<close>.  The fault handler of a frame is a closure stored in the frame;
  \<open>apply_fh\<close> is its application: from the closure, the frame and the machine it gives
  the resume frame (\<open>0\<close> for none) and the machine it leaves.  The syscall entry,
  \<open>frame_return\<close> and \<open>runloop\<close> do not return, so each ends the dispatcher; the
  \<open>halt\<close> after \<open>switch_stack_1\<close> is not reached.

  Without a fault handler the dispatcher prints the frame and the stack and then spins.
  \<open>print_frame\<close> reads the slots of the frame and the names of the handlers and writes
  to the console, which is not part of the machine state.  \<open>print_stack\<close> loads from
  the memory \<open>mem\<close>: when one of its loads faults, the dispatcher ends there and does
  not reach the \<open>while(1)\<close>.
\<close>

definition synchronous_handler ::
  "(u64 \<Rightarrow> context \<Rightarrow> machine \<Rightarrow> context \<times> machine) \<Rightarrow> memory \<Rightarrow> machine \<Rightarrow> outcome" where
  "synchronous_handler apply_fh mem m =
     (let f = running_frame (ci m);
          esr = esr_from_frame (frames m f) in
      if field_from_u64 (ucast esr) ESR_EC = ESR_EC_SVC_AARCH64 \<and>
         (ucast esr AND ESR_IL) \<noteq> 0 \<and>
         field_from_u64 (ucast esr) ESR_ISS_IMM16 = 0
      then
        let m1 = m\<lparr>frames := (frames m)(f := (frames m f)(FRAME_VECTOR := frames m f FRAME_X8))\<rparr>;
            m2 = m1\<lparr>ci := (ci m1)\<lparr>running_frame := kernel_context_frame (ci m1)\<rparr>\<rparr>
        in Syscall f m2
      else
        let fh = frames m f FRAME_FAULT_HANDLER in
        if fh \<noteq> 0 then
          let (retframe, m1) = apply_fh fh f m in
          if retframe \<noteq> 0 then Frame_return retframe m1
          else Runloop (if is_current_kernel_context m1 f then clear_frame_full f m1 else m1)
        else
          (case print_stack mem (frames m f) of
             Inl e \<Rightarrow> Fault e m
           | Inr out \<Rightarrow> Spin m))"

section \<open>The line invariant and example states\<close>

text \<open>
  The invariant of a vector table entry: the line of a vector is enabled at the
  controller exactly when the vector has a handler.
\<close>

definition line_enabled_iff_handlers :: "machine \<Rightarrow> bool" where
  "line_enabled_iff_handlers m =
     (\<forall>v < MAX_INTERRUPT_VECTORS. gic_enabled m v = (handlers m v \<noteq> []))"

text \<open>
  A calibration with steady coefficient \<open>0x100000000\<close> (rate 1.0), transitional
  coefficient 0 and boundary 1000; one with both coefficients zero; and one whose steady
  coefficient is a single unit in the last place, with the last reading at 1.
\<close>

definition cal_example :: vdso_dat_struct where
  "cal_example =
     \<lparr>clock_src = VDSO_CLOCK_SYSCALL, rtc_offset = 0, platform_has_rdtscp = False,
      temp_cal = 0, cal = 0x100000000, sync_complete = 1000, last_raw = 0, last_drift = 0\<rparr>"

definition neutral_example :: vdso_dat_struct where
  "neutral_example =
     \<lparr>clock_src = VDSO_CLOCK_SYSCALL, rtc_offset = 7, platform_has_rdtscp = False,
      temp_cal = 0, cal = 0, sync_complete = 1000, last_raw = 3, last_drift = 9\<rparr>"

definition rounding_example :: vdso_dat_struct where
  "rounding_example =
     \<lparr>clock_src = VDSO_CLOCK_SYSCALL, rtc_offset = 0, platform_has_rdtscp = False,
      temp_cal = 0, cal = 1, sync_complete = 0, last_raw = 1, last_drift = 0\<rparr>"

text \<open>Clock states over a hardware state that is the counter value itself.\<close>

definition clock_example :: "nat clock_state" where
  "clock_example = \<lparr>platform_monotonic_now = (\<lambda>h. of_nat h), vdso_dat = cal_example\<rparr>"

definition neutral_clock_example :: "nat clock_state" where
  "neutral_clock_example =
     \<lparr>platform_monotonic_now = (\<lambda>h. of_nat h), vdso_dat = neutral_example\<rparr>"

text \<open>
  A machine after initialisation, with no handler and every line disabled, and the same
  machine with handlers \<open>a\<close> and \<open>b\<close> on vector 45 and one pending assertion of it.
\<close>

definition boot_example :: machine where
  "boot_example =
     \<lparr>ci = \<lparr>running_frame = 0x1000, kernel_context_frame = 0x2000, state = cpu_kernel\<rparr>,
      frames = (\<lambda>_ _. 0),
      handlers = (\<lambda>_. []),
      gic_enabled = (\<lambda>_. False),
      gic_pending = (\<lambda>_. True),
      gic_priority = (\<lambda>_. 255),
      gic_queue = [],
      trace = []\<rparr>"

definition shared_example :: machine where
  "shared_example =
     boot_example
       \<lparr>handlers := (\<lambda>_. [])(45 := [\<lparr>ih_t = 0xa, ih_name = ''a''\<rparr>, \<lparr>ih_t = 0xb, ih_name = ''b''\<rparr>]),
        gic_enabled := (\<lambda>_. False)(45 := True),
        gic_queue := [45]\<rparr>"

text \<open>
  Two trapped frames with syscall number 64 in \<open>x8\<close>, a stack pointer of \<open>0\<close> and no
  fault handler.  The syndrome of the first is \<open>0x56000000\<close>: class \<open>0x15\<close>, the
  instruction-length bit set, immediate 0.  The syndrome of the second is
  \<open>0x56000001\<close>: the same with immediate 1.
\<close>

definition svc_example :: machine where
  "svc_example =
     \<lparr>ci = \<lparr>running_frame = 0x1000, kernel_context_frame = 0x2000, state = cpu_kernel\<rparr>,
      frames = (\<lambda>_. (\<lambda>_. 0)(FRAME_ESR_SPSR := 0x5600000000000000, FRAME_X8 := 64)),
      handlers = (\<lambda>_. []),
      gic_enabled = (\<lambda>_. False),
      gic_pending = (\<lambda>_. False),
      gic_priority = (\<lambda>_. 0),
      gic_queue = [],
      trace = []\<rparr>"

definition svc_imm_example :: machine where
  "svc_imm_example =
     svc_example
       \<lparr>frames := (\<lambda>_. (\<lambda>_. 0)(FRAME_ESR_SPSR := 0x5600000100000000, FRAME_X8 := 64))\<rparr>"

text \<open>A memory in which no address is mapped.\<close>

definition unmapped_example :: memory where
  "unmapped_example = \<lparr>mapped = (\<lambda>_. False), contents = (\<lambda>_. 0)\<rparr>"

section \<open>Properties of the clock\<close>

subsection \<open>The piecewise drift rule\<close>

lemma clock_calculate_drift_spec_scale:
  "clock_calculate_drift i c = spec_scale i c"
  by (simp add: clock_calculate_drift_def spec_scale_def spec_abs_def CLOCK_CALIBR_BITS_def
      Let_def not_le not_less)

text \<open>
  Claim C2.  With a nonzero calibration (the transitional or the steady coefficient is
  not zero), the drift computed for a raw reading \<open>r\<close> is the three-case rule of the
  specification: up to the boundary, the previous drift plus the scaled interval since
  the last reading with the transitional coefficient; past the boundary with the last
  reading past it too, the same with the steady coefficient; past the boundary with the
  last reading before it, the transitional part up to the boundary plus the steady part
  after it.  Intervals, products and sums are 64-bit and wrap.
\<close>

theorem clock_get_drift_piecewise:
  assumes "temp_cal d \<noteq> 0 \<or> cal d \<noteq> 0"
  shows "clock_get_drift d r = spec_drift d r"
  using assms
  by (auto simp add: clock_get_drift_def spec_drift_def Let_def
      clock_calculate_drift_spec_scale not_le not_less)

theorem clock_get_drift_piecewise_witness:
  "cal cal_example \<noteq> 0 \<and>
   clock_get_drift cal_example 500 = 0 \<and> clock_get_drift cal_example 2000 = 1000"
  using clock_get_drift_piecewise [of cal_example 500]
    clock_get_drift_piecewise [of cal_example 2000]
  by (simp add: cal_example_def spec_drift_def spec_scale_def spec_abs_def)

subsection \<open>Zero calibration\<close>

text \<open>
  When both drift coefficients are zero, the drift computed for any raw reading is 0,
  whatever the stored last drift and last raw reading are.  A query then returns the raw
  counter, and for the two identifiers that the switch of \<open>now\<close> names
  (\<open>CLOCK_ID_REALTIME\<close> and \<open>CLOCK_ID_REALTIME_COARSE\<close>) the raw counter plus the
  wall-clock offset.
\<close>

lemma zero_calibration_no_drift:
  assumes "temp_cal (vdso_dat k) = 0" and "cal (vdso_dat k) = 0"
  shows "clock_get_drift ((vdso_dat k)\<lparr>last_drift := ld, last_raw := lr\<rparr>) r = 0 \<and>
         fst (now cid h k) =
           (if cid = CLOCK_ID_REALTIME \<or> cid = CLOCK_ID_REALTIME_COARSE
            then platform_monotonic_now k h + rtc_offset (vdso_dat k)
            else platform_monotonic_now k h)"
  using assms
  by (cases cid) (simp_all add: clock_get_drift_def now_def clock_update_drift_def Let_def)

text \<open>
  Claim C10.  With both coefficients zero the drift is 0 and a real-time query returns
  the raw counter plus the wall-clock offset: so it is for \<open>CLOCK_ID_REALTIME\<close> and
  \<open>CLOCK_ID_REALTIME_COARSE\<close>.  The third real-time identifier of the enumeration,
  \<open>CLOCK_ID_REALTIME_ALARM\<close>, is missing from the switch and takes the default branch:
  with a counter of 2000 and a wall-clock offset of 7 the query returns 2000, where the
  two other real-time identifiers return 2007.
\<close>

theorem now_realtime_alarm_omits_offset:
  "temp_cal (vdso_dat neutral_clock_example) = 0 \<and> cal (vdso_dat neutral_clock_example) = 0 \<and>
   rtc_offset (vdso_dat neutral_clock_example) = 7 \<and>
   platform_monotonic_now neutral_clock_example 2000 = 2000 \<and>
   clock_get_drift (vdso_dat neutral_clock_example) 2000 = 0 \<and>
   fst (now CLOCK_ID_REALTIME 2000 neutral_clock_example) = 2007 \<and>
   fst (now CLOCK_ID_REALTIME_COARSE 2000 neutral_clock_example) = 2007 \<and>
   fst (now CLOCK_ID_MONOTONIC 2000 neutral_clock_example) = 2000 \<and>
   fst (now CLOCK_ID_REALTIME_ALARM 2000 neutral_clock_example) = 2000"
  by (simp add: neutral_clock_example_def neutral_example_def now_def clock_update_drift_def
      clock_get_drift_def Let_def)

subsection \<open>What a time query writes\<close>

text \<open>
  Claim C7, as the code has it.  A query with an identifier other than
  \<open>CLOCK_ID_MONOTONIC_RAW\<close> sets the last raw reading to the current counter reading and
  the last drift to the drift computed for it, and changes nothing else.  A query with
  \<open>CLOCK_ID_MONOTONIC_RAW\<close> returns the counter before the update and leaves the state
  as it is.
\<close>

theorem now_updates_drift_unless_raw:
  "(cid \<noteq> CLOCK_ID_MONOTONIC_RAW \<longrightarrow>
      snd (now cid h k) =
        k\<lparr>vdso_dat := (vdso_dat k)
            \<lparr>last_drift := clock_get_drift (vdso_dat k) (platform_monotonic_now k h),
             last_raw := platform_monotonic_now k h\<rparr>\<rparr>) \<and>
   (cid = CLOCK_ID_MONOTONIC_RAW \<longrightarrow>
      now cid h k = (platform_monotonic_now k h, k))"
  by (simp add: now_def clock_update_drift_def Let_def)

theorem now_updates_drift_unless_raw_witness:
  "last_raw (vdso_dat (snd (now CLOCK_ID_MONOTONIC 2000 clock_example))) = 2000 \<and>
   last_drift (vdso_dat (snd (now CLOCK_ID_MONOTONIC 2000 clock_example))) = 1000 \<and>
   now CLOCK_ID_MONOTONIC_RAW 2000 clock_example = (2000, clock_example)"
  using now_updates_drift_unless_raw [of CLOCK_ID_MONOTONIC 2000 clock_example]
    now_updates_drift_unless_raw [of CLOCK_ID_MONOTONIC_RAW 2000 clock_example]
  by (simp add: clock_example_def cal_example_def clock_get_drift_def clock_calculate_drift_def
      CLOCK_CALIBR_BITS_def)

text \<open>
  The claim as it is written, for every identifier, fails at the raw monotonic one: the
  query at counter 2000 leaves the last raw reading at 0.
\<close>

theorem now_always_updates_counterexample:
  "\<not> (\<forall>cid (h :: nat) k.
        last_raw (vdso_dat (snd (now cid h k))) = platform_monotonic_now k h)"
proof
  assume "\<forall>cid (h :: nat) k.
        last_raw (vdso_dat (snd (now cid h k))) = platform_monotonic_now k h"
  then have "last_raw (vdso_dat (snd (now CLOCK_ID_MONOTONIC_RAW 2000 clock_example)))
      = platform_monotonic_now clock_example 2000"
    by blast
  then show False
    by (simp add: now_def clock_example_def cal_example_def)
qed

subsection \<open>Registration of the monotonic source\<close>

text \<open>
  Claim C9.  Registering a monotonic source installs it, records the clock-source
  identifier and resets the calibration: both coefficients, the boundary, the last raw
  reading and the last drift are zero, and the wall-clock offset is the real-time
  clock's seconds shifted left by 32 minus the reading of the newly registered source,
  or zero when the real-time clock returns zero.  \<open>reset_clock_vdso_dat\<close> alone does
  the same with the source already installed.
\<close>

theorem register_platform_clock_now_resets:
  "platform_monotonic_now (register_platform_clock_now rtc cn src h k) = cn \<and>
   vdso_dat (register_platform_clock_now rtc cn src h k) =
     \<lparr>clock_src = src,
      rtc_offset = (if rtc h = 0 then 0 else push_bit 32 (rtc h) - cn h),
      platform_has_rdtscp = platform_has_rdtscp (vdso_dat k),
      temp_cal = 0, cal = 0, sync_complete = 0, last_raw = 0, last_drift = 0\<rparr> \<and>
   vdso_dat (reset_clock_vdso_dat rtc h k) =
     \<lparr>clock_src = clock_src (vdso_dat k),
      rtc_offset = (if rtc h = 0 then 0 else push_bit 32 (rtc h) - platform_monotonic_now k h),
      platform_has_rdtscp = platform_has_rdtscp (vdso_dat k),
      temp_cal = 0, cal = 0, sync_complete = 0, last_raw = 0, last_drift = 0\<rparr>"
  by (simp add: register_platform_clock_now_def reset_clock_vdso_dat_def Let_def)

theorem register_platform_clock_now_resets_witness:
  "rtc_offset (vdso_dat (register_platform_clock_now (\<lambda>h. 3) (\<lambda>h. of_nat h) VDSO_CLOCK_HPET 10 clock_example))
     = 0x2FFFFFFF6 \<and>
   rtc_offset (vdso_dat (register_platform_clock_now (\<lambda>h. 0) (\<lambda>h. of_nat h) VDSO_CLOCK_HPET 10 clock_example))
     = 0 \<and>
   cal (vdso_dat (register_platform_clock_now (\<lambda>h. 3) (\<lambda>h. of_nat h) VDSO_CLOCK_HPET 10 clock_example)) = 0"
  using register_platform_clock_now_resets [of "\<lambda>h. 3" "\<lambda>h. of_nat h" VDSO_CLOCK_HPET 10 clock_example]
    register_platform_clock_now_resets [of "\<lambda>h. 0" "\<lambda>h. of_nat h" VDSO_CLOCK_HPET 10 clock_example]
  by simp

subsection \<open>Path independence of the drift\<close>

text \<open>
  A multiply-shift truncates, so the scaled sum of two intervals and the sum of their
  scaled parts can differ by one.
\<close>

lemma div_add_split_nat:
  fixes x y k :: nat
  shows "(x + y) div k = x div k + y div k \<or> (x + y) div k = x div k + y div k + 1"
proof (cases "k = 0")
  case True then show ?thesis by simp
next
  case False
  have "(x + y) div k = x div k + y div k + (x mod k + y mod k) div k"
    by (rule div_add1_eq)
  moreover have "(x mod k + y mod k) div k \<le> 1"
  proof -
    have "x mod k + y mod k < 2 * k" using False
      by (metis add_strict_mono mod_less_divisor mult_2 neq0_conv)
    then show ?thesis using False
      by (simp add: less_eq_iff_succ_less less_mult_imp_div_less)
  qed
  ultimately show ?thesis by arith
qed

lemma unat_scale:
  fixes i c :: "64 word"
  assumes "unat i * unat c < 2 ^ 64"
  shows "unat (drop_bit 32 (i * c)) = (unat i * unat c) div 2 ^ 32"
proof -
  have "unat (i * c) = unat i * unat c"
    using assms by (simp add: unat_mult_lem [THEN iffD1])
  then show ?thesis 
    by (metis drop_bit_eq_div unat_drop_bit_eq)
qed

lemma shift_mult_split:
  fixes x y z c :: "64 word"
  assumes xy: "x \<le> y" and yz: "y \<le> z"
    and noov: "unat (z - x) * unat c < 2 ^ 64"
  shows "drop_bit 32 ((z - x) * c) = drop_bit 32 ((y - x) * c) + drop_bit 32 ((z - y) * c)
       \<or> drop_bit 32 ((z - x) * c) = drop_bit 32 ((y - x) * c) + drop_bit 32 ((z - y) * c) + 1"
proof -
  let ?a = "unat (y - x)" and ?b = "unat (z - y)" and ?u = "unat c"
  have a: "?a = unat y - unat x" using xy by (simp add: unat_sub)
  have b: "?b = unat z - unat y" using yz by (simp add: unat_sub)
  have xz: "x \<le> z" using xy yz by simp
  have ab: "unat (z - x) = ?a + ?b"
    using xy yz xz by (simp add: unat_sub a b word_le_nat_alt)
  have la: "?a * ?u < 2 ^ 64" 
    by (rule le_less_trans [OF _ noov]) (simp add: ab)
  have lb: "?b * ?u < 2 ^ 64"
    by (rule le_less_trans [OF _ noov]) (simp add: ab)
  have A: "unat (drop_bit 32 ((y - x) * c)) = (?a * ?u) div 2 ^ 32"
    by (rule unat_scale [OF la])
  have B: "unat (drop_bit 32 ((z - y) * c)) = (?b * ?u) div 2 ^ 32"
    by (rule unat_scale [OF lb])
  have C: "unat (drop_bit 32 ((z - x) * c)) = (?a * ?u + ?b * ?u) div 2 ^ 32"
    using unat_scale [OF noov] by (simp add: ab add_mult_distrib)
  have W: "drop_bit 32 ((z - x) * c) = of_nat ((?a * ?u + ?b * ?u) div 2 ^ 32)"
    unfolding C [symmetric] by simp
  have WA: "drop_bit 32 ((y - x) * c) = of_nat ((?a * ?u) div 2 ^ 32)"
    unfolding A [symmetric] by simp
  have WB: "drop_bit 32 ((z - y) * c) = of_nat ((?b * ?u) div 2 ^ 32)"
    unfolding B [symmetric] by simp
  from div_add_split_nat [of "?a * ?u" "?b * ?u" "2 ^ 32"]
  show ?thesis
  proof
    assume e: "(?a * ?u + ?b * ?u) div 2 ^ 32 = ?a * ?u div 2 ^ 32 + ?b * ?u div 2 ^ 32"
    have "drop_bit 32 ((z - x) * c) = drop_bit 32 ((y - x) * c) + drop_bit 32 ((z - y) * c)"
      unfolding W WA WB e by simp
    then show ?thesis ..
  next
    assume e: "(?a * ?u + ?b * ?u) div 2 ^ 32 = ?a * ?u div 2 ^ 32 + ?b * ?u div 2 ^ 32 + 1"
    have "drop_bit 32 ((z - x) * c) = drop_bit 32 ((y - x) * c) + drop_bit 32 ((z - y) * c) + 1"
      unfolding W WA WB e by simp
    then show ?thesis ..
  qed
qed


lemma uint_of_sint_nonneg:
  fixes c :: "64 word"
  assumes "0 \<le> sint c"
  shows "uint c = sint c"
proof -
  have "sint c < 2 ^ 64" using sint_lt [of c] by simp
  then have "take_bit 64 (sint c) = sint c" using assms by (simp add: take_bit_int_eq_self)
  then show ?thesis by (simp add: uint_sint)
qed

lemma unat_nonneg_abs: "0 \<le> sint (c :: 64 word) \<Longrightarrow> unat c = nat \<bar>sint c\<bar>"
  using uint_of_sint_nonneg [of c] by (simp add: unat_eq_nat_uint)

lemma uint_neg_of_sint_neg:
  fixes c :: "64 word"
  assumes "sint c < 0"
  shows "uint (- c) = - sint c"
proof -
  have lo: "- (2 ^ 63) \<le> sint c" using sint_ge [of c] by simp
  have "uint (- c) = take_bit 64 (sint (- c))" by (simp add: uint_sint)
  also have "\<dots> = take_bit 64 (- sint c)"
    by (simp add: sint_word_minus take_bit_signed_take_bit)
  also have "\<dots> = - sint c" using assms lo by (simp add: take_bit_int_eq_self)
  finally show ?thesis .
qed

lemma unat_neg_abs: "sint (c :: 64 word) < 0 \<Longrightarrow> unat (- c) = nat \<bar>sint c\<bar>"
  using uint_neg_of_sint_neg [of c] by (simp add: unat_eq_nat_uint)


lemma clock_calculate_drift_split:
  fixes x y z :: timestamp and c :: s64
  assumes xy: "x \<le> y" and yz: "y \<le> z"
    and noov: "unat (z - x) * nat \<bar>sint c\<bar> < 2 ^ 64"
  shows "clock_calculate_drift (z - x) c
           - (clock_calculate_drift (y - x) c + clock_calculate_drift (z - y) c) \<in> {0, 1, - 1}"
proof (cases "0 \<le> sint c")
  case True
  then have "unat (z - x) * unat c < 2 ^ 64"
    using noov by (simp add: unat_nonneg_abs)
  from shift_mult_split [OF xy yz this] True show ?thesis
    by (auto simp add: clock_calculate_drift_def CLOCK_CALIBR_BITS_def)
next
  case False
  then have "unat (z - x) * unat (- c) < 2 ^ 64"
    using noov by (simp add: unat_neg_abs)
  from shift_mult_split [OF xy yz this] False show ?thesis
    by (auto simp add: clock_calculate_drift_def CLOCK_CALIBR_BITS_def)
qed

lemma unat_diff_mono:
  fixes a b x y :: "64 word"
  assumes "a \<le> x" "x \<le> y" "y \<le> b"
  shows "unat (y - x) \<le> unat (b - a)"
proof -
  have "a \<le> b" using assms by simp
  then show ?thesis using assms by (simp add: unat_sub word_le_nat_alt)
qed

lemma clock_get_drift_before:
  assumes "\<not> (temp_cal d = 0 \<and> cal d = 0)" and "r \<le> sync_complete d"
  shows "clock_get_drift d r = last_drift d + clock_calculate_drift (r - last_raw d) (temp_cal d)"
  using assms by (auto simp add: clock_get_drift_def Let_def not_less)

lemma clock_get_drift_after:
  assumes "\<not> (temp_cal d = 0 \<and> cal d = 0)" and "sync_complete d < r"
    and "sync_complete d < last_raw d"
  shows "clock_get_drift d r = last_drift d + clock_calculate_drift (r - last_raw d) (cal d)"
  using assms by (auto simp add: clock_get_drift_def Let_def)

lemma clock_get_drift_cross:
  assumes "\<not> (temp_cal d = 0 \<and> cal d = 0)" and "sync_complete d < r"
    and "last_raw d \<le> sync_complete d"
  shows "clock_get_drift d r =
     last_drift d + clock_calculate_drift (sync_complete d - last_raw d) (temp_cal d)
       + clock_calculate_drift (r - sync_complete d) (cal d)"
  using assms by (auto simp add: clock_get_drift_def Let_def not_less)

text \<open>
  Claim C6, as the code has it.  Let the last raw reading be \<open>r1\<close> and \<open>r1 < r2 < r3\<close>,
  and let no product of the interval \<open>r3 - r1\<close> with the magnitude of a coefficient
  reach \<open>2 ^ 64\<close>.  Then the drift computed at \<open>r3\<close> directly and the drift computed at
  \<open>r3\<close> after an update at \<open>r2\<close> are equal or differ by one unit in the last place:
  each multiply-shift truncates, and the path through \<open>r2\<close> truncates once more.
\<close>

theorem drift_path_near_independent:
  assumes r1: "last_raw d = r1" and r12: "r1 < r2" and r23: "r2 < r3"
    and nt: "unat (r3 - r1) * nat \<bar>sint (temp_cal d)\<bar> < 2 ^ 64"
    and ns: "unat (r3 - r1) * nat \<bar>sint (cal d)\<bar> < 2 ^ 64"
  shows "clock_get_drift d r3 - clock_get_drift (snd (clock_update_drift d r2)) r3 \<in> {0, 1, - 1}"
proof (cases "temp_cal d = 0 \<and> cal d = 0")
  case True
  then show ?thesis by (simp add: clock_get_drift_def clock_update_drift_def Let_def)
next
  case nz: False
  define B where "B = sync_complete d"
  define d2 where "d2 = snd (clock_update_drift d r2)"
  define D where "D = last_drift d"
  have d2: "last_raw d2 = r2" "last_drift d2 = clock_get_drift d r2"
    "temp_cal d2 = temp_cal d" "cal d2 = cal d" "sync_complete d2 = B"
    by (simp_all add: d2_def B_def clock_update_drift_def Let_def)
  have nz2: "\<not> (temp_cal d2 = 0 \<and> cal d2 = 0)" using nz d2 by simp
  have le12: "r1 \<le> r2" and le23: "r2 \<le> r3" and le13: "r1 \<le> r3"
    using r12 r23 by simp_all
  have bound: "unat (z - x) * nat \<bar>sint c\<bar> < 2 ^ 64"
    if "r1 \<le> x" "x \<le> z" "z \<le> r3" "unat (r3 - r1) * nat \<bar>sint c\<bar> < 2 ^ 64"
    for x z :: timestamp and c :: s64
  proof -
    have "unat (z - x) \<le> unat (r3 - r1)" using that by (intro unat_diff_mono) simp_all
    then have "unat (z - x) * nat \<bar>sint c\<bar> \<le> unat (r3 - r1) * nat \<bar>sint c\<bar>"
      by (rule mult_le_mono1)
    then show ?thesis using that(4) by (rule le_less_trans)
  qed
  consider (before) "r3 \<le> B"
    | (after) "B < r1"
    | (cross_lo) "r1 \<le> B" "r2 \<le> B" "B < r3"
    | (cross_hi) "r1 \<le> B" "B < r2"
    using r12 r23 by fastforce
  then show ?thesis
  proof cases
    case before
    then have b2: "r2 \<le> B" using r23 by simp
    have g3: "clock_get_drift d r3 = D + clock_calculate_drift (r3 - r1) (temp_cal d)"
      using clock_get_drift_before [OF nz, of r3] before by (simp add: B_def D_def r1)
    have g2: "clock_get_drift d r2 = D + clock_calculate_drift (r2 - r1) (temp_cal d)"
      using clock_get_drift_before [OF nz, of r2] b2 by (simp add: B_def D_def r1)
    have g23: "clock_get_drift d2 r3 =
        clock_get_drift d r2 + clock_calculate_drift (r3 - r2) (temp_cal d)"
      using clock_get_drift_before [OF nz2, of r3] before by (simp add: d2)
    have "clock_get_drift d r3 - clock_get_drift d2 r3 =
        clock_calculate_drift (r3 - r1) (temp_cal d)
          - (clock_calculate_drift (r2 - r1) (temp_cal d) + clock_calculate_drift (r3 - r2) (temp_cal d))"
      by (simp add: g3 g23 g2)
    then show ?thesis
      using clock_calculate_drift_split [OF le12 le23 nt] by (simp add: d2_def)
  next
    case after
    then have a2: "B < r2" and a3: "B < r3" using r12 r23 by simp_all
    have g3: "clock_get_drift d r3 = D + clock_calculate_drift (r3 - r1) (cal d)"
      using clock_get_drift_after [OF nz, of r3] after a3 by (simp add: B_def D_def r1)
    have g2: "clock_get_drift d r2 = D + clock_calculate_drift (r2 - r1) (cal d)"
      using clock_get_drift_after [OF nz, of r2] after a2 by (simp add: B_def D_def r1)
    have g23: "clock_get_drift d2 r3 =
        clock_get_drift d r2 + clock_calculate_drift (r3 - r2) (cal d)"
      using clock_get_drift_after [OF nz2, of r3] a2 a3 by (simp add: d2)
    have "clock_get_drift d r3 - clock_get_drift d2 r3 =
        clock_calculate_drift (r3 - r1) (cal d)
          - (clock_calculate_drift (r2 - r1) (cal d) + clock_calculate_drift (r3 - r2) (cal d))"
      by (simp add: g3 g23 g2)
    then show ?thesis
      using clock_calculate_drift_split [OF le12 le23 ns] by (simp add: d2_def)
  next
    case cross_lo
    have g3: "clock_get_drift d r3 = D + clock_calculate_drift (B - r1) (temp_cal d)
        + clock_calculate_drift (r3 - B) (cal d)"
      using clock_get_drift_cross [OF nz, of r3] cross_lo by (simp add: B_def D_def r1)
    have g2: "clock_get_drift d r2 = D + clock_calculate_drift (r2 - r1) (temp_cal d)"
      using clock_get_drift_before [OF nz, of r2] cross_lo by (simp add: B_def D_def r1)
    have g23: "clock_get_drift d2 r3 =
        clock_get_drift d r2 + clock_calculate_drift (B - r2) (temp_cal d)
          + clock_calculate_drift (r3 - B) (cal d)"
      using clock_get_drift_cross [OF nz2, of r3] cross_lo by (simp add: d2)
    have "clock_get_drift d r3 - clock_get_drift d2 r3 =
        clock_calculate_drift (B - r1) (temp_cal d)
          - (clock_calculate_drift (r2 - r1) (temp_cal d) + clock_calculate_drift (B - r2) (temp_cal d))"
      by (simp add: g3 g23 g2)
    moreover have "unat (B - r1) * nat \<bar>sint (temp_cal d)\<bar> < 2 ^ 64"
      by (rule bound [OF _ _ _ nt]) (use cross_lo in simp_all)
    ultimately show ?thesis
      using clock_calculate_drift_split [OF le12 cross_lo(2)] by (simp add: d2_def)
  next
    case cross_hi
    then have b3: "B < r3" and b2: "B \<le> r2" using r23 by simp_all
    have g3: "clock_get_drift d r3 = D + clock_calculate_drift (B - r1) (temp_cal d)
        + clock_calculate_drift (r3 - B) (cal d)"
      using clock_get_drift_cross [OF nz, of r3] cross_hi b3 by (simp add: B_def D_def r1)
    have g2: "clock_get_drift d r2 = D + clock_calculate_drift (B - r1) (temp_cal d)
        + clock_calculate_drift (r2 - B) (cal d)"
      using clock_get_drift_cross [OF nz, of r2] cross_hi by (simp add: B_def D_def r1)
    have g23: "clock_get_drift d2 r3 =
        clock_get_drift d r2 + clock_calculate_drift (r3 - r2) (cal d)"
      using clock_get_drift_after [OF nz2, of r3] cross_hi b3 by (simp add: d2)
    have "clock_get_drift d r3 - clock_get_drift d2 r3 =
        clock_calculate_drift (r3 - B) (cal d)
          - (clock_calculate_drift (r2 - B) (cal d) + clock_calculate_drift (r3 - r2) (cal d))"
      by (simp add: g3 g23 g2)
    moreover have "unat (r3 - B) * nat \<bar>sint (cal d)\<bar> < 2 ^ 64"
      by (rule bound [OF _ _ _ ns]) (use cross_hi b3 in simp_all)
    ultimately show ?thesis
      using clock_calculate_drift_split [OF b2 le23] by (simp add: d2_def)
  qed
qed

theorem drift_path_near_independent_witness:
  "last_raw rounding_example = 1 \<and> (1 :: timestamp) < 0x80000001 \<and>
   (0x80000001 :: timestamp) < 0x100000001 \<and>
   unat (0x100000001 - 1 :: timestamp) * nat \<bar>sint (cal rounding_example)\<bar> < 2 ^ 64 \<and>
   clock_get_drift rounding_example 0x100000001
     - clock_get_drift (snd (clock_update_drift rounding_example 0x80000001)) 0x100000001 = 1"
  using drift_path_near_independent [of rounding_example 1 "0x80000001" "0x100000001"]
  by (simp add: rounding_example_def clock_get_drift_def clock_update_drift_def
        clock_calculate_drift_def CLOCK_CALIBR_BITS_def Let_def)

text \<open>
  The claim as it is written, with equality, fails: with a steady coefficient of one
  unit and readings \<open>1 < 0x80000001 < 0x100000001\<close> past the boundary, the direct drift
  is 1 and the drift through the intermediate update is 0.
\<close>

theorem drift_path_independence_counterexample:
  "\<not> (\<forall>d r1 r2 r3. last_raw d = r1 \<and> r1 < r2 \<and> r2 < r3 \<longrightarrow>
        clock_get_drift d r3 = clock_get_drift (snd (clock_update_drift d r2)) r3)"
proof
  assume "\<forall>d r1 r2 r3. last_raw d = r1 \<and> r1 < r2 \<and> r2 < r3 \<longrightarrow>
        clock_get_drift d r3 = clock_get_drift (snd (clock_update_drift d r2)) r3"
  then have "last_raw rounding_example = 1 \<and> (1 :: timestamp) < 0x80000001 \<and> (0x80000001 :: timestamp) < 0x100000001 \<longrightarrow>
     clock_get_drift rounding_example 0x100000001
       = clock_get_drift (snd (clock_update_drift rounding_example 0x80000001)) 0x100000001"
    by blast
  then show False
    by (simp add: rounding_example_def clock_get_drift_def clock_update_drift_def
        clock_calculate_drift_def CLOCK_CALIBR_BITS_def Let_def)
qed

section \<open>Properties of interrupt dispatch\<close>

subsection \<open>The dispatch loop\<close>


lemma invoke_handlers_frame:
  "handlers (invoke_handlers hs m) = handlers m"
  "gic_enabled (invoke_handlers hs m) = gic_enabled m"
  "gic_pending (invoke_handlers hs m) = gic_pending m"
  "gic_priority (invoke_handlers hs m) = gic_priority m"
  "gic_queue (invoke_handlers hs m) = gic_queue m"
  "frames (invoke_handlers hs m) = frames m"
  by (induction hs arbitrary: m) (simp_all add: apply_thunk_def)


lemma irq_loop_empty: "gic_queue m = [] \<Longrightarrow> irq_loop m = Return m"
  by (simp add: irq_loop.simps gic_dispatch_int_def)

lemma irq_loop_Cons:
  "gic_queue m = i # q \<Longrightarrow>
   irq_loop m =
     (if MAX_INTERRUPT_VECTORS \<le> i then Halt (Exceeds_max_interrupt_vectors i) (m\<lparr>gic_queue := q\<rparr>)
      else if handlers m i = [] then Halt (No_handler_for_interrupt i) (m\<lparr>gic_queue := q\<rparr>)
      else irq_loop (gic_eoi i (invoke_handlers (handlers m i) (m\<lparr>gic_queue := q\<rparr>))))"
  by (subst irq_loop.simps) (simp add: gic_dispatch_int_def)


lemma irq_loop_halt_iff:
  "(\<exists>r m'. irq_loop m = Halt r m') =
     (\<exists>i \<in> set (gic_queue m). MAX_INTERRUPT_VECTORS \<le> i \<or> handlers m i = [])"
proof (induction "gic_queue m" arbitrary: m)
  case Nil
  then show ?case by (simp add: irq_loop_empty [OF Nil.hyps [symmetric]] flip: Nil.hyps)
next
  case (Cons i q)
  let ?m1 = "gic_eoi i (invoke_handlers (handlers m i) (m\<lparr>gic_queue := q\<rparr>))"
  have q: "q = gic_queue ?m1" by (simp add: gic_eoi_def invoke_handlers_frame)
  have h: "handlers ?m1 = handlers m" by (simp add: gic_eoi_def invoke_handlers_frame)
  have s: "gic_queue m = i # q" using Cons.hyps(2) by simp
  show ?case
    using Cons.hyps(1) [OF q] 
    by (simp add: irq_loop_Cons [OF s] h s flip: q)
qed

lemma irq_loop_outcome:
  "(\<exists>m'. irq_loop m = Return m') \<or> (\<exists>r m'. irq_loop m = Halt r m')"
proof (induction "gic_queue m" arbitrary: m)
  case Nil
  then show ?case by (simp add: irq_loop_empty)
next
  case (Cons i q)
  let ?m1 = "gic_eoi i (invoke_handlers (handlers m i) (m\<lparr>gic_queue := q\<rparr>))"
  have q: "q = gic_queue ?m1" by (simp add: gic_eoi_def invoke_handlers_frame)
  have s: "gic_queue m = i # q" using Cons.hyps(2) by simp
  show ?case
    using Cons.hyps(1) [OF q] by (simp add: irq_loop_Cons [OF s])
qed

lemma irq_handler_halt_iff:
  "(\<exists>r m'. irq_handler m = Halt r m') = (\<exists>r m'. irq_loop m = Halt r m')"
  using irq_loop_outcome [of m] by (auto simp add: irq_handler_def Let_def)

subsection \<open>Handlers run in registration order\<close>



subsection \<open>The line of a vector is enabled exactly when it has a handler\<close>

text \<open>
  Claim C3.  Registration and removal keep the invariant that a line is enabled exactly
  when its vector has a handler.  Registering on a vector without handlers sets the
  priority to 0, clears the pending state and enables the line, in this order;
  registering on a vector with handlers makes no call to the controller.  Removal
  disables the line and empties the chain, and a registration after it enables the line
  again with the pending state cleared.
\<close>

theorem registry_keeps_line_enabled_iff_handlers:
  assumes v: "v < MAX_INTERRUPT_VECTORS"
  shows "(\<exists>m1. register_interrupt v t name True m = Return m1 \<and>
            (line_enabled_iff_handlers m \<longrightarrow> line_enabled_iff_handlers m1) \<and>
            (handlers m v = [] \<longrightarrow>
               trace m1 = trace m @ [Gic_set_int_priority v 0, Gic_clear_pending_int v, Gic_enable_int v] \<and>
               gic_priority m1 v = 0 \<and> \<not> gic_pending m1 v \<and> gic_enabled m1 v) \<and>
            (handlers m v \<noteq> [] \<longrightarrow>
               trace m1 = trace m \<and> gic_enabled m1 = gic_enabled m \<and>
               gic_pending m1 = gic_pending m \<and> gic_priority m1 = gic_priority m)) \<and>
         (handlers m v \<noteq> [] \<longrightarrow>
            (\<exists>m2. unregister_interrupt v m = Return m2 \<and>
               trace m2 = trace m @ [Gic_disable_int v] \<and>
               \<not> gic_enabled m2 v \<and> handlers m2 v = [] \<and>
               (line_enabled_iff_handlers m \<longrightarrow> line_enabled_iff_handlers m2) \<and>
               (\<exists>m3. register_interrupt v t name True m2 = Return m3 \<and>
                  handlers m3 v = [\<lparr>ih_t = t, ih_name = name\<rparr>] \<and>
                  gic_enabled m3 v \<and> \<not> gic_pending m3 v)))"
  by (auto simp add: register_interrupt_def unregister_interrupt_def Let_def
      line_enabled_iff_handlers_def gic_enable_int_def gic_clear_pending_int_def
      gic_set_int_priority_def gic_disable_int_def)

theorem registry_keeps_line_enabled_iff_handlers_witness:
  "(45 :: nat) < MAX_INTERRUPT_VECTORS \<and> line_enabled_iff_handlers boot_example \<and>
   handlers boot_example 45 = [] \<and>
   (\<exists>m1. register_interrupt 45 0xa ''a'' True boot_example = Return m1 \<and>
      line_enabled_iff_handlers m1 \<and>
      trace m1 = [Gic_set_int_priority 45 0, Gic_clear_pending_int 45, Gic_enable_int 45] \<and>
      gic_enabled m1 45 \<and> \<not> gic_pending m1 45) \<and>
   handlers shared_example 45 \<noteq> [] \<and> line_enabled_iff_handlers shared_example \<and>
   (\<exists>m2. unregister_interrupt 45 shared_example = Return m2 \<and>
      line_enabled_iff_handlers m2 \<and> \<not> gic_enabled m2 45 \<and> handlers m2 45 = [])"
proof -
  have v: "(45 :: nat) < MAX_INTERRUPT_VECTORS"
    by (simp add: MAX_INTERRUPT_VECTORS_def)
  have ib: "line_enabled_iff_handlers boot_example"
    by (simp add: line_enabled_iff_handlers_def boot_example_def)
  have hb: "handlers boot_example 45 = []" and tb: "trace boot_example = []"
    by (simp_all add: boot_example_def)
  have isx: "line_enabled_iff_handlers shared_example"
    by (simp add: line_enabled_iff_handlers_def shared_example_def boot_example_def)
  have hs: "handlers shared_example 45 \<noteq> []"
    by (simp add: shared_example_def boot_example_def)
  from registry_keeps_line_enabled_iff_handlers [OF v, of "0xa" "''a''" boot_example] ib hb tb
  have 1: "\<exists>m1. register_interrupt 45 0xa ''a'' True boot_example = Return m1 \<and>
      line_enabled_iff_handlers m1 \<and>
      trace m1 = [Gic_set_int_priority 45 0, Gic_clear_pending_int 45, Gic_enable_int 45] \<and>
      gic_enabled m1 45 \<and> \<not> gic_pending m1 45"
    by auto
  from registry_keeps_line_enabled_iff_handlers [OF v, of "0xa" "''a''" shared_example] isx hs
  have 2: "\<exists>m2. unregister_interrupt 45 shared_example = Return m2 \<and>
      line_enabled_iff_handlers m2 \<and> \<not> gic_enabled m2 45 \<and> handlers m2 45 = []"
    by auto
  from v ib hb 1 hs isx 2 show ?thesis by blast
qed

subsection \<open>Where the dispatcher and the removal halt\<close>

text \<open>
  Claim C5.  The dispatcher halts exactly when the controller delivers an id that is not
  below \<open>MAX_INTERRUPT_VECTORS\<close> or an id whose chain is empty; the halt comes with the
  first such id.  Removal halts exactly when the chain of the vector is empty, and then
  the line has been disabled before the halt.
\<close>

theorem halt_exactly_on_bad_id_or_missing_handler:
  assumes v: "v < MAX_INTERRUPT_VECTORS"
  shows "((\<exists>r m'. irq_handler m = Halt r m') =
            (\<exists>i \<in> set (gic_queue m). MAX_INTERRUPT_VECTORS \<le> i \<or> handlers m i = [])) \<and>
         (gic_queue m = i # q \<and> MAX_INTERRUPT_VECTORS \<le> i \<longrightarrow>
            irq_handler m = Halt (Exceeds_max_interrupt_vectors i) (m\<lparr>gic_queue := q\<rparr>)) \<and>
         (gic_queue m = i # q \<and> i < MAX_INTERRUPT_VECTORS \<and> handlers m i = [] \<longrightarrow>
            irq_handler m = Halt (No_handler_for_interrupt i) (m\<lparr>gic_queue := q\<rparr>)) \<and>
         ((\<exists>r m'. unregister_interrupt v m = Halt r m') = (handlers m v = [])) \<and>
         (handlers m v = [] \<longrightarrow>
            unregister_interrupt v m = Halt (No_handler_registered v) (gic_disable_int v m) \<and>
            \<not> gic_enabled (gic_disable_int v m) v)"
proof (intro conjI impI)
  show "(\<exists>r m'. irq_handler m = Halt r m') =
          (\<exists>i \<in> set (gic_queue m). MAX_INTERRUPT_VECTORS \<le> i \<or> handlers m i = [])"
    by (simp only: irq_handler_halt_iff irq_loop_halt_iff)
next
  assume "gic_queue m = i # q \<and> MAX_INTERRUPT_VECTORS \<le> i"
  then show "irq_handler m = Halt (Exceeds_max_interrupt_vectors i) (m\<lparr>gic_queue := q\<rparr>)"
    by (simp add: irq_handler_def irq_loop_Cons Let_def)
next
  assume "gic_queue m = i # q \<and> i < MAX_INTERRUPT_VECTORS \<and> handlers m i = []"
  then show "irq_handler m = Halt (No_handler_for_interrupt i) (m\<lparr>gic_queue := q\<rparr>)"
    by (simp add: irq_handler_def irq_loop_Cons Let_def)
next
  show "(\<exists>r m'. unregister_interrupt v m = Halt r m') = (handlers m v = [])"
    by (simp add: unregister_interrupt_def Let_def gic_disable_int_def)
next
  assume "handlers m v = []"
  then show "unregister_interrupt v m = Halt (No_handler_registered v) (gic_disable_int v m)"
    by (simp add: unregister_interrupt_def Let_def gic_disable_int_def)
next
  show "\<not> gic_enabled (gic_disable_int v m) v"
    by (simp add: gic_disable_int_def)
qed

theorem halt_exactly_on_bad_id_or_missing_handler_witness:
  "(45 :: nat) < MAX_INTERRUPT_VECTORS \<and>
   irq_handler (shared_example\<lparr>gic_queue := [45, 300]\<rparr>)
     = Halt (Exceeds_max_interrupt_vectors 300)
         (shared_example\<lparr>gic_queue := [],
            ci := (ci shared_example)\<lparr>state := cpu_interrupt\<rparr>,
            trace := [Apply_thunk 0xa, Apply_thunk 0xb, Gic_eoi 45]\<rparr>) \<and>
   irq_handler (shared_example\<lparr>gic_queue := [46]\<rparr>)
     = Halt (No_handler_for_interrupt 46) (shared_example\<lparr>gic_queue := []\<rparr>) \<and>
   (\<exists>m'. irq_handler shared_example = Runloop m') \<and>
   unregister_interrupt 46 shared_example
     = Halt (No_handler_registered 46) (gic_disable_int 46 shared_example) \<and>
   (\<exists>m'. unregister_interrupt 45 shared_example = Return m')"
  using halt_exactly_on_bad_id_or_missing_handler
          [of 45 "shared_example\<lparr>gic_queue := [46]\<rparr>" 46 "[]"]
    halt_exactly_on_bad_id_or_missing_handler [of 46 shared_example 45 "[]"]
  by (auto simp add: MAX_INTERRUPT_VECTORS_def shared_example_def boot_example_def
      irq_handler_def irq_loop_Cons irq_loop_empty gic_eoi_def apply_thunk_def
      unregister_interrupt_def gic_disable_int_def Let_def clear_frame_full_def
      is_current_kernel_context_def)

section \<open>Properties of the synchronous exception dispatcher\<close>

text \<open>The decoding of the syndrome, on the 32-bit value.\<close>

lemma ec_ucast: "drop_bit 26 (ucast (e :: 32 word) :: 64 word) AND mask 6 = ucast (drop_bit 26 e)"
  by (rule bit_word_eqI) (auto simp add: bit_simps dest: bit_imp_le_length)

lemma imm_ucast: "drop_bit 0 (ucast (e :: 32 word) :: 64 word) AND mask 16 = ucast (take_bit 16 e)"
  by (rule bit_word_eqI) (auto simp add: bit_simps dest: bit_imp_le_length)

lemma il_ucast: "((ucast (e :: 32 word) :: 64 word) AND ESR_IL \<noteq> 0) = bit e 25"
  unfolding ESR_IL_def push_bit_of_1
  by (simp only: and_exp_eq_0_iff_not_bit bit_ucast_iff) simp

lemma ucast_32_64_eq_iff: "((ucast (x :: 32 word) :: 64 word) = ucast y) = (x = y)"
proof
  assume "(ucast x :: 64 word) = ucast y"
  then have h: "bit (ucast x :: 64 word) n = bit (ucast y :: 64 word) n" for n by simp
  have "bit x n = bit y n" if "n < 32" for n
    using that h [of n] by (simp add: bit_simps)
  then show "x = y" by (intro bit_word_eqI) simp
qed simp

lemma ec_field:
  "(field_from_u64 (ucast (e :: 32 word)) ESR_EC = ESR_EC_SVC_AARCH64) = (drop_bit 26 e = 0x15)"
proof -
  have "(0x15 :: 64 word) = ucast (0x15 :: 32 word)" by simp
  then show ?thesis
    unfolding field_from_u64_def ESR_EC_def ESR_EC_SVC_AARCH64_def fst_conv snd_conv ec_ucast
    by (simp only: ucast_32_64_eq_iff)
qed

lemma imm_field:
  "(field_from_u64 (ucast (e :: 32 word)) ESR_ISS_IMM16 = 0) = (take_bit 16 e = 0)"
proof -
  have "((ucast (take_bit 16 e) :: 64 word) = ucast (0 :: 32 word)) = (take_bit 16 e = 0)"
    by (rule ucast_32_64_eq_iff)
  then show ?thesis
    unfolding field_from_u64_def ESR_ISS_IMM16_def fst_conv snd_conv imm_ucast
    by simp
qed

text \<open>
  The test of the dispatcher, on the 32-bit syndrome: the syscall path is taken exactly
  when the class is \<open>0x15\<close>, the instruction-length bit is set and the immediate is zero.
\<close>

lemma synchronous_handler_syscall_cond:
  assumes f: "f = running_frame (ci m)" and esr: "esr = esr_from_frame (frames m f)"
  shows "((\<exists>f' m'. synchronous_handler apply_fh mem m = Syscall f' m') =
            (drop_bit 26 esr = 0x15 \<and> bit esr 25 \<and> take_bit 16 esr = 0)) \<and>
         (drop_bit 26 esr = 0x15 \<and> bit esr 25 \<and> take_bit 16 esr = 0 \<longrightarrow>
            synchronous_handler apply_fh mem m =
              Syscall f
                (m\<lparr>frames := (frames m)(f := (frames m f)(FRAME_VECTOR := frames m f FRAME_X8)),
                   ci := (ci m)\<lparr>running_frame := kernel_context_frame (ci m)\<rparr>\<rparr>))"
proof -
  let ?c = "drop_bit 26 esr = 0x15 \<and> bit esr 25 \<and> take_bit 16 esr = 0"
  have c: "(field_from_u64 (ucast esr) ESR_EC = ESR_EC_SVC_AARCH64 \<and>
            (ucast esr AND ESR_IL) \<noteq> 0 \<and>
            field_from_u64 (ucast esr) ESR_ISS_IMM16 = 0) = ?c"
    by (simp only: ec_field il_ucast imm_field)
  have yes: "synchronous_handler apply_fh mem m =
      Syscall f
        (m\<lparr>frames := (frames m)(f := (frames m f)(FRAME_VECTOR := frames m f FRAME_X8)),
           ci := (ci m)\<lparr>running_frame := kernel_context_frame (ci m)\<rparr>\<rparr>)" if ?c
    using that c by (simp add: synchronous_handler_def Let_def flip: f esr)
  have no: "\<not> (\<exists>f' m'. synchronous_handler apply_fh mem m = Syscall f' m')" if "\<not> ?c"
    using that c
    by (auto simp add: synchronous_handler_def Let_def split: prod.splits sum.splits
        simp flip: f esr)
  from yes no show ?thesis by blast
qed

text \<open>
  Claim C4.  The architecture sets the instruction-length bit of the syndrome for every
  trapped 32-bit instruction, and a supervisor call from 64-bit state is one: a syndrome
  the dispatcher receives with class \<open>0x15\<close> has the bit set.  On such a syndrome the
  dispatcher takes the syscall path exactly when the trap is a supervisor call (class
  \<open>0x15\<close>) with a zero immediate.  On this path it copies slot \<open>x8\<close> of the trapped
  frame to the frame's vector slot, makes the frame of the kernel context the running
  frame, and enters the syscall entry point with the trapped frame; it does not come
  back to the dispatcher.
\<close>

theorem synchronous_handler_syscall_iff:
  assumes f: "f = running_frame (ci m)" and esr: "esr = esr_from_frame (frames m f)"
    and il: "drop_bit 26 esr = 0x15 \<longrightarrow> bit esr 25"
  shows "((\<exists>f' m'. synchronous_handler apply_fh mem m = Syscall f' m') =
            (drop_bit 26 esr = 0x15 \<and> take_bit 16 esr = 0)) \<and>
         (drop_bit 26 esr = 0x15 \<and> take_bit 16 esr = 0 \<longrightarrow>
            synchronous_handler apply_fh mem m =
              Syscall f
                (m\<lparr>frames := (frames m)(f := (frames m f)(FRAME_VECTOR := frames m f FRAME_X8)),
                   ci := (ci m)\<lparr>running_frame := kernel_context_frame (ci m)\<rparr>\<rparr>))"
proof -
  have "(drop_bit 26 esr = 0x15 \<and> bit esr 25 \<and> take_bit 16 esr = 0) =
        (drop_bit 26 esr = 0x15 \<and> take_bit 16 esr = 0)"
    using il by blast
  with synchronous_handler_syscall_cond [OF f esr, of apply_fh mem] show ?thesis
    by simp
qed

theorem synchronous_handler_syscall_iff_witness:
  "bit (0x56000000 :: 32 word) 25 \<and> bit (0x56000001 :: 32 word) 25 \<and>
   synchronous_handler (\<lambda>fh f m. (0, m)) unmapped_example svc_example =
     Syscall 0x1000
       (svc_example
          \<lparr>frames := (frames svc_example)
               (0x1000 := (frames svc_example 0x1000)(FRAME_VECTOR := 64)),
           ci := (ci svc_example)\<lparr>running_frame := 0x2000\<rparr>\<rparr>) \<and>
   \<not> (\<exists>f' m'. synchronous_handler (\<lambda>fh f m. (0, m)) unmapped_example svc_imm_example
                = Syscall f' m')"
proof -
  have b0: "bit (0x56000000 :: 32 word) 25" and b1: "bit (0x56000001 :: 32 word) 25"
    by (simp_all add: bit_iff_odd)
  have e0: "(0x56000000 :: 32 word) = esr_from_frame (frames svc_example 0x1000)"
    by (simp add: svc_example_def esr_from_frame_def)
  have e1: "(0x56000001 :: 32 word) = esr_from_frame (frames svc_imm_example 0x1000)"
    by (simp add: svc_imm_example_def svc_example_def esr_from_frame_def)
  have r0: "(0x1000 :: u64) = running_frame (ci svc_example)"
    and r1: "(0x1000 :: u64) = running_frame (ci svc_imm_example)"
    by (simp_all add: svc_imm_example_def svc_example_def)
  from synchronous_handler_syscall_iff [OF r0 e0, of "\<lambda>fh f m. (0, m)" unmapped_example] b0
  have 0: "synchronous_handler (\<lambda>fh f m. (0, m)) unmapped_example svc_example =
     Syscall 0x1000
       (svc_example
          \<lparr>frames := (frames svc_example)
               (0x1000 := (frames svc_example 0x1000)(FRAME_VECTOR := 64)),
           ci := (ci svc_example)\<lparr>running_frame := 0x2000\<rparr>\<rparr>)"
    by (simp add: svc_example_def)
  from synchronous_handler_syscall_iff [OF r1 e1, of "\<lambda>fh f m. (0, m)" unmapped_example] b1
  have 1: "\<not> (\<exists>f' m'. synchronous_handler (\<lambda>fh f m. (0, m)) unmapped_example svc_imm_example
                = Syscall f' m')"
    by simp
  from b0 b1 0 1 show ?thesis by blast
qed

section \<open>Properties of the diagnostic stack walks\<close>

lemma print_stack_loop_unmapped:
  assumes "0 < k" and "x < 0xffff000000020000" and "\<not> validate_virtual mem x 8"
  shows "print_stack_loop k mem x out = Inl (Unmapped_access x)"
  using assms by (cases k) (simp_all add: load_u64_def)

text \<open>
  Claim C8.  The raw-stack scan loads from its pointer without a validity check: with a
  stack pointer of \<open>0x1000\<close> and nothing mapped, its first load is a fault.  The
  frame-pointer walk, started at the same address, stops at the failed check and loads
  nothing.
\<close>

theorem print_stack_loads_unvalidated_pointer:
  "print_stack unmapped_example ((\<lambda>_. 0)(FRAME_SP := 0x1000)) = Inl (Unmapped_access 0x1000) \<and>
   frame_trace unmapped_example 0x1000 = Inr []"
proof -
  have nv: "\<not> validate_virtual unmapped_example p 8" for p
    by (simp add: validate_virtual_def unmapped_example_def upt_rec)
  have "frame_trace_loop (Suc 15) unmapped_example 0x1000 [] = Inr []"
    by (simp only: frame_trace_loop.simps nv) simp
  then have "frame_trace unmapped_example 0x1000 = Inr []"
    by (simp add: frame_trace_def)
  moreover have "print_stack unmapped_example ((\<lambda>_. 0)(FRAME_SP := 0x1000)) = Inl (Unmapped_access 0x1000)"
    using print_stack_loop_unmapped [of STACK_TRACE_DEPTH "0x1000" unmapped_example "[]"] nv
    by (simp add: print_stack_def STACK_TRACE_DEPTH_def)
  ultimately show ?thesis by simp
qed

text \<open>
  The frame-pointer walk by itself does what the specification asks: for every memory
  and every start it ends without a fault, after at most 16 frames.
\<close>

lemma frame_trace_loop_no_fault:
  "\<exists>res. frame_trace_loop k mem fp out = Inr res"
proof (induction k arbitrary: fp out)
  case 0
  then show ?case by simp
next
  case (Suc k)
  show ?case
  proof (cases "fp < 4096 \<or> \<not> validate_virtual mem fp 8 \<or> \<not> validate_virtual mem (fp + 8) 8")
    case True
    then show ?thesis by auto
  next
    case False
    then show ?thesis using Suc.IH by (simp add: load_u64_def)
  qed
qed

lemma frame_trace_loop_length:
  "frame_trace_loop k mem fp out = Inr res \<Longrightarrow> length res \<le> length out + k"
proof (induction k arbitrary: fp out)
  case 0
  then show ?case by simp
next
  case (Suc k)
  then show ?case
    by (fastforce simp add: load_u64_def split: if_splits)
qed

lemma frame_trace_validates:
  "\<exists>res. frame_trace mem fp = Inr res \<and> length res \<le> 16"
  using frame_trace_loop_no_fault [of 16 mem fp "[]"] frame_trace_loop_length [of 16 mem fp "[]"]
  by (auto simp add: frame_trace_def)

text \<open>
  The dispatcher reaches the stack scan when a frame has no fault handler: for a
  supervisor call with immediate 1 and a stack pointer that is not mapped, the first
  load of the scan faults.
\<close>

lemma synchronous_handler_diagnostic_fault:
  "synchronous_handler (\<lambda>fh f m. (0, m)) unmapped_example svc_imm_example =
     Fault (Unmapped_access 0) svc_imm_example"
proof -
  have nv: "\<not> validate_virtual unmapped_example p 8" for p
    by (simp add: validate_virtual_def unmapped_example_def upt_rec)
  have "print_stack_loop STACK_TRACE_DEPTH unmapped_example 0 [] = Inl (Unmapped_access 0)"
    by (rule print_stack_loop_unmapped) (simp_all add: STACK_TRACE_DEPTH_def nv)
  then have "print_stack unmapped_example ((\<lambda>_. 0)(FRAME_ESR_SPSR := 0x5600000100000000, FRAME_X8 := 64))
      = Inl (Unmapped_access 0)"
    by (simp add: print_stack_def)
  then show ?thesis
    by (simp add: synchronous_handler_def svc_imm_example_def svc_example_def
        esr_from_frame_def field_from_u64_def ESR_EC_def ESR_EC_SVC_AARCH64_def ESR_IL_def
        ESR_ISS_IMM16_def mask_eq_exp_minus_1)
qed

end
